theory Spec2Isabelle
  imports Main
begin

section \<open>The popup of the Hide My Email extension (src/pages/Popup/Popup.tsx)\<close>

text \<open>
  The popup is a React component over two persisted values, the phase (\<open>PopupState\<close>) and
  the iCloud session data. Its event handlers are asynchronous functions that call the
  iCloud client and then apply a transition of the state machine. The model is a shallow
  embedding with explicit state passing: a handler takes the popup's state and returns the
  state it leaves behind; a promise is a pair of its outcome (\<open>Fulfilled\<close> or
  \<open>Rejected\<close>) and the state after it settled, so that \<open>await\<close> on a rejected promise
  is the branch that skips to the enclosing \<open>catch\<close>.
\<close>

subsection \<open>Phases and actions\<close>

text \<open>
  Modelled from the spec: the enum \<open>PopupState\<close> of stateMachine.ts, which Popup.tsx
  imports and which is not among the sources. Section 3 of the spec: the four phases.
\<close>

datatype PopupState = SignedOut | SignedIn | Verified | VerifiedAndManaging

text \<open>
  Modelled from the spec: the action types of stateMachine.ts, unions of string literals
  (section 3 of the spec: "Action (per phase, tagged)"). The literal
  \<open>'SUCCESSFUL_SIGN_OUT'\<close> belongs to three of the unions; a HOL constructor belongs to
  one type, so its three occurrences carry the phase as a prefix.
\<close>

datatype SignedOutAction = SUCCESSFUL_SIGN_IN

datatype SignedInAction = SUCCESSFUL_VERIFICATION | SignedIn_SUCCESSFUL_SIGN_OUT

datatype VerifiedAction = MANAGE | Verified_SUCCESSFUL_SIGN_OUT

datatype VerifiedAndManagingAction = GENERATE | VerifiedAndManaging_SUCCESSFUL_SIGN_OUT

text \<open>
  The literal type \<open>'SUCCESSFUL_SIGN_OUT'\<close>, the argument type of the callback of
  \<open>SignOutButton\<close> (Popup.tsx, line 342), and its inclusion into each of the three unions
  that contain the literal.
\<close>

datatype SignOutAction = SUCCESSFUL_SIGN_OUT

fun asSignedInAction :: "SignOutAction \<Rightarrow> SignedInAction" where
  "asSignedInAction SUCCESSFUL_SIGN_OUT = SignedIn_SUCCESSFUL_SIGN_OUT"

fun asVerifiedAction :: "SignOutAction \<Rightarrow> VerifiedAction" where
  "asVerifiedAction SUCCESSFUL_SIGN_OUT = Verified_SUCCESSFUL_SIGN_OUT"

fun asVerifiedAndManagingAction :: "SignOutAction \<Rightarrow> VerifiedAndManagingAction" where
  "asVerifiedAndManagingAction SUCCESSFUL_SIGN_OUT = VerifiedAndManaging_SUCCESSFUL_SIGN_OUT"

text \<open>
  Modelled from the spec: the row \<open>STATE_MACHINE_TRANSITIONS[PopupState.SignedOut]\<close> of
  the table of stateMachine.ts, which Popup.tsx indexes as
  \<open>STATE_MACHINE_TRANSITIONS[state][action]\<close>. State machine summary of section 4.3 of the
  spec, first line.
\<close>

fun STATE_MACHINE_TRANSITIONS_SignedOut :: "SignedOutAction \<Rightarrow> PopupState" where
  "STATE_MACHINE_TRANSITIONS_SignedOut SUCCESSFUL_SIGN_IN = SignedIn"

text \<open>
  Modelled from the spec: the row \<open>STATE_MACHINE_TRANSITIONS[PopupState.SignedIn]\<close> of
  the table of stateMachine.ts. State machine summary, second and third line.
\<close>

fun STATE_MACHINE_TRANSITIONS_SignedIn :: "SignedInAction \<Rightarrow> PopupState" where
  "STATE_MACHINE_TRANSITIONS_SignedIn SUCCESSFUL_VERIFICATION = Verified"
| "STATE_MACHINE_TRANSITIONS_SignedIn SignedIn_SUCCESSFUL_SIGN_OUT = SignedOut"

text \<open>
  Modelled from the spec: the row \<open>STATE_MACHINE_TRANSITIONS[PopupState.Verified]\<close> of
  the table of stateMachine.ts. State machine summary, fourth and fifth line.
\<close>

fun STATE_MACHINE_TRANSITIONS_Verified :: "VerifiedAction \<Rightarrow> PopupState" where
  "STATE_MACHINE_TRANSITIONS_Verified MANAGE = VerifiedAndManaging"
| "STATE_MACHINE_TRANSITIONS_Verified Verified_SUCCESSFUL_SIGN_OUT = SignedOut"

text \<open>
  Modelled from the spec: the row
  \<open>STATE_MACHINE_TRANSITIONS[PopupState.VerifiedAndManaging]\<close> of the table of
  stateMachine.ts. State machine summary, sixth and seventh line.
\<close>

fun STATE_MACHINE_TRANSITIONS_VerifiedAndManaging ::
  "VerifiedAndManagingAction \<Rightarrow> PopupState" where
  "STATE_MACHINE_TRANSITIONS_VerifiedAndManaging GENERATE = Verified"
| "STATE_MACHINE_TRANSITIONS_VerifiedAndManaging VerifiedAndManaging_SUCCESSFUL_SIGN_OUT =
     SignedOut"

subsection \<open>Session data\<close>

text \<open>
  Modelled from the spec: the type \<open>ICloudClientSessionData\<close> of iCloudClient.ts, which
  is not among the sources. Section 3 of the spec: an opaque record of what the identity
  provider returned (session tokens, device trust identifiers, session identifiers),
  among it the verified-session markers that are set only after the second factor was
  accepted. The markers are an optional opaque payload.
\<close>

record ICloudClientSessionData =
  identifiers :: "string list"
  markers :: "string option"

text \<open>
  Modelled from the spec: the constant \<open>EMPTY_SESSION_DATA\<close> of iCloudClient.ts, the "one
  well-defined empty value used before any sign-in" of section 3.
\<close>

definition EMPTY_SESSION_DATA :: ICloudClientSessionData where
  "EMPTY_SESSION_DATA = \<lparr>identifiers = [], markers = None\<rparr>"

text \<open>
  Modelled from the spec: the notion of a present session, which no code of Popup.tsx
  computes. Section 3: "A Session is considered present iff its SessionData is
  non-empty".
\<close>

definition present :: "ICloudClientSessionData \<Rightarrow> bool" where
  "present d = (d \<noteq> EMPTY_SESSION_DATA)"

subsection \<open>The state of the popup\<close>

text \<open>
  What the handlers read and write: the two values of \<open>useBrowserStorageState\<close> in
  \<open>Popup\<close> (\<open>state\<close> and \<open>sessionData\<close>), the persisted copy of the session data that
  another execution context may have written (\<open>storedSessionData\<close>, read by
  \<open>getBrowserStorageValue\<close>), the local state of the form on screen (\<open>isSubmitting\<close>,
  \<open>error\<close>), and the sequence of the calls made so far (\<open>trace\<close>), which exists only to
  state in which order things happened.
\<close>

datatype event =
    Call_verify2faCode string
  | Call_trustDevice
  | Call_accountLogin
  | Call_validateToken
  | Call_refreshSession
  | Call_logOut
  | Session_reset
  | ContextMenus_update
  | Console_debug
  | SetState PopupState

record popup =
  state :: PopupState
  sessionData :: ICloudClientSessionData
  storedSessionData :: ICloudClientSessionData
  isSubmitting :: bool
  error :: "string option"
  trace :: "event list"

datatype result = Fulfilled | Rejected

type_synonym 'a TransitionCallback = "'a \<Rightarrow> popup \<Rightarrow> popup"

definition log_event :: "event \<Rightarrow> popup \<Rightarrow> popup" where
  "log_event e w = w\<lparr>trace := trace w @ [e]\<rparr>"

text \<open>
  Modelled from the spec: the setter of the phase returned by \<open>useBrowserStorageState\<close>
  (hooks.ts, not among the sources). Section 6 of the spec: the persisted phase supports
  get and set. The call is recorded in the trace.
\<close>

definition setState :: "PopupState \<Rightarrow> popup \<Rightarrow> popup" where
  "setState s w = w\<lparr>state := s, trace := trace w @ [SetState s]\<rparr>"

text \<open>
  Modelled from the spec: the setter of the session data returned by
  \<open>useBrowserStorageState\<close> (hooks.ts, not among the sources). Section 3 of the spec: "a
  mutation callback that persists changes"; it writes the value of the popup and the
  persisted one.
\<close>

definition setSessionData :: "ICloudClientSessionData \<Rightarrow> popup \<Rightarrow> popup" where
  "setSessionData d w = w\<lparr>sessionData := d, storedSessionData := d\<rparr>"

subsection \<open>The client\<close>

text \<open>
  The handlers of Popup.tsx receive an \<open>ICloudClient\<close> and call its methods. A client is
  the record of the methods Popup.tsx uses, so that each handler is defined for any
  client whatever.
\<close>

record client =
  client_authenticated :: "popup \<Rightarrow> bool"
  client_validateToken :: "popup \<Rightarrow> result \<times> popup"
  client_refreshSession :: "popup \<Rightarrow> result \<times> popup"
  client_verify2faCode :: "string \<Rightarrow> popup \<Rightarrow> result \<times> popup"
  client_trustDevice :: "popup \<Rightarrow> result \<times> popup"
  client_accountLogin :: "popup \<Rightarrow> result \<times> popup"
  client_logOut :: "popup \<Rightarrow> result \<times> popup"

text \<open>
  The answers of the identity provider to the calls of one handler run: whether it
  accepts the code, trusts the device, which markers its session finalisation returns
  (\<open>None\<close> when it fails), whether the token probe and the remote sign-out succeed.
\<close>

record provider =
  accepts_code :: bool
  trusts_device :: bool
  login_markers :: "string option"
  token_valid :: bool
  invalidates_session :: bool

text \<open>
  The class \<open>ICloudClient\<close> is defined in iCloudClient.ts, which is not among the
  sources; each of its methods below follows section 4.2 of the spec and records its call
  in the trace.
\<close>

text \<open>
  Modelled from the spec: the getter \<open>ICloudClient.authenticated\<close>. "True iff
  SessionData carries the markers set only after a full accept-the-second-factor round
  trip."
\<close>

definition authenticated :: "popup \<Rightarrow> bool" where
  "authenticated w = (markers (sessionData w) \<noteq> None)"

text \<open>
  Modelled from the spec: the method \<open>ICloudClient.validateToken\<close>. "Performs a
  lightweight authenticated call; on any non-success response, the session is considered
  invalid. Does not mutate SessionData itself."
\<close>

definition validateToken :: "provider \<Rightarrow> popup \<Rightarrow> result \<times> popup" where
  "validateToken p w =
     (if token_valid p then Fulfilled else Rejected, log_event Call_validateToken w)"

text \<open>
  Modelled from the spec: the method \<open>ICloudClient.refreshSession\<close>. "Re-reads persisted
  SessionData from SessionStore and rebinds the in-memory Session", through the optional
  refresh callback the session was built with (section 3).
\<close>

definition refreshSession :: "(popup \<Rightarrow> popup) option \<Rightarrow> popup \<Rightarrow> result \<times> popup" where
  "refreshSession refresher w =
     (case refresher of
        None \<Rightarrow> (Fulfilled, log_event Call_refreshSession w)
      | Some f \<Rightarrow> (Fulfilled, f (log_event Call_refreshSession w)))"

text \<open>
  Modelled from the spec: the method \<open>ICloudClient.verify2faCode\<close>. "Submits the
  second-factor code; fails with a verification error if the code is wrong-length or
  rejected by the provider."
\<close>

definition verify2faCode :: "provider \<Rightarrow> string \<Rightarrow> popup \<Rightarrow> result \<times> popup" where
  "verify2faCode p code w =
     (if length code = 6 \<and> accepts_code p then Fulfilled else Rejected,
      log_event (Call_verify2faCode code) w)"

text \<open>
  Modelled from the spec: the method \<open>ICloudClient.trustDevice\<close>. "Marks the device as
  trusted post-verification"; device trust is "a provider-side marker" (glossary).
\<close>

definition trustDevice :: "provider \<Rightarrow> popup \<Rightarrow> result \<times> popup" where
  "trustDevice p w =
     (if trusts_device p then Fulfilled else Rejected, log_event Call_trustDevice w)"

text \<open>
  Modelled from the spec: the method \<open>ICloudClient.accountLogin\<close>. "Finalizes the
  authenticated session, setting the markers that make \<open>authenticated\<close> true"; a failure
  "leaves SessionData unchanged".
\<close>

definition accountLogin :: "provider \<Rightarrow> popup \<Rightarrow> result \<times> popup" where
  "accountLogin p w =
     (case login_markers p of
        None \<Rightarrow> (Rejected, log_event Call_accountLogin w)
      | Some m \<Rightarrow>
          (Fulfilled,
           setSessionData ((sessionData w)\<lparr>markers := Some m\<rparr>)
             (log_event Call_accountLogin w)))"

text \<open>
  Modelled from the spec: the method \<open>ICloudClient.logOut\<close>. "Invalidates the session
  server-side (best-effort; failures are swallowed) and clears local SessionData";
  section 9: "attempt remote call, log but never propagate failure, always perform local
  state clearing unconditionally afterward".
\<close>

definition ICloudClient_logOut :: "provider \<Rightarrow> popup \<Rightarrow> result \<times> popup" where
  "ICloudClient_logOut p w =
     (let w1 = log_event Call_logOut w;
          w2 = (if invalidates_session p then w1 else log_event Console_debug w1)
      in (Fulfilled, setSessionData EMPTY_SESSION_DATA (log_event Session_reset w2)))"

text \<open>
  Modelled from the spec: the constructor of \<open>ICloudClient\<close>, on a session with or
  without a refresh callback, against a provider that answers as \<open>p\<close> says.
\<close>

definition ICloudClient :: "provider \<Rightarrow> (popup \<Rightarrow> popup) option \<Rightarrow> client" where
  "ICloudClient p refresher =
     \<lparr>client_authenticated = authenticated,
      client_validateToken = validateToken p,
      client_refreshSession = refreshSession refresher,
      client_verify2faCode = verify2faCode p,
      client_trustDevice = trustDevice p,
      client_accountLogin = accountLogin p,
      client_logOut = ICloudClient_logOut p\<rparr>"

subsection \<open>The phase dispatcher\<close>

text \<open>
  \<open>transitionToNextStateElement\<close> (Popup.tsx, lines 882 to 913) selects the screen of a
  phase and gives it the callback that applies the transition of that phase. The
  \<open>switch\<close> compares the phase with each case label in turn; its \<open>default\<close> branch throws
  \<open>Unhandled PopupState case\<close>, which is the \<open>Inl\<close> result. The client is handed to the
  screen unchanged and is a parameter of the screen's handlers below.
\<close>

datatype ReactElement =
    SignInForm "SignedOutAction TransitionCallback"
  | TwoFaForm "SignedInAction TransitionCallback"
  | HmeGenerator "VerifiedAction TransitionCallback"
  | HmeManager "VerifiedAndManagingAction TransitionCallback"

definition transitionToNextStateElement ::
  "PopupState \<Rightarrow> (PopupState \<Rightarrow> popup \<Rightarrow> popup) \<Rightarrow> string + ReactElement" where
  "transitionToNextStateElement st setSt =
     (if st = SignedOut then
        Inr (SignInForm (\<lambda>action. setSt (STATE_MACHINE_TRANSITIONS_SignedOut action)))
      else if st = SignedIn then
        Inr (TwoFaForm (\<lambda>action. setSt (STATE_MACHINE_TRANSITIONS_SignedIn action)))
      else if st = Verified then
        Inr (HmeGenerator (\<lambda>action. setSt (STATE_MACHINE_TRANSITIONS_Verified action)))
      else if st = VerifiedAndManaging then
        Inr (HmeManager
              (\<lambda>action. setSt (STATE_MACHINE_TRANSITIONS_VerifiedAndManaging action)))
      else Inl ''Unhandled PopupState case'')"

text \<open>The element \<open>Popup\<close> renders: the dispatcher at the persisted phase.\<close>

definition Popup :: "popup \<Rightarrow> string + ReactElement" where
  "Popup w = transitionToNextStateElement (state w) setState"

subsection \<open>The sign-in screen\<close>

text \<open>
  Modelled from the spec: the types \<open>MessageType\<close>, \<open>LogInResponseData\<close> and \<open>Message\<close>
  of messages.ts, which is not among the sources; these are the members and fields
  Popup.tsx uses. Section 6 of the spec: the response to "perform sign-in" carries
  "success/failure plus the next action to apply".
\<close>

datatype MessageType = LogInRequest | LogInResponse | Autofill

record LogInResponseData =
  success :: bool
  action :: "SignedOutAction option"

record Message =
  message_type :: MessageType
  message_data :: LogInResponseData

text \<open>
  The listener of \<open>SignInForm\<close> (lines 98 to 113) ignores a message of another type; on
  a successful response it awaits \<open>refreshSession\<close> and then applies the action the
  response carries, if it carries one; on a failed response it sets the inline error.
\<close>

definition SignInForm_onMessage ::
  "SignedOutAction TransitionCallback \<Rightarrow> client \<Rightarrow> Message \<Rightarrow> popup \<Rightarrow> result \<times> popup" where
  "SignInForm_onMessage callback c message w =
     (if message_type message \<noteq> LogInResponse then (Fulfilled, w)
      else
        let w1 = w\<lparr>isSubmitting := False\<rparr> in
        if success (message_data message) then
          (case client_refreshSession c w1 of
             (Rejected, w2) \<Rightarrow> (Rejected, w2)
           | (Fulfilled, w2) \<Rightarrow>
               (case action (message_data message) of
                  None \<Rightarrow> (Fulfilled, w2)
                | Some a \<Rightarrow> (Fulfilled, callback a w2)))
        else (Fulfilled, w1\<lparr>error := Some ''Failed to sign in. Please try again.''\<rparr>))"

subsection \<open>The second-factor screen\<close>

text \<open>
  \<open>TwoFaForm.onFormSubmit\<close> (lines 220 to 243). A rejected \<open>await\<close> inside the \<open>try\<close>
  block skips the rest of the block and runs the \<open>catch\<close> block.
\<close>

definition TwoFaForm_catch :: "popup \<Rightarrow> popup" where
  "TwoFaForm_catch w =
     w\<lparr>isSubmitting := False,
       error := Some
         ''2FA failed. Please try entering the code again or sign-out and sign back in.''\<rparr>"

definition TwoFaForm_onFormSubmit ::
  "SignedInAction TransitionCallback \<Rightarrow> client \<Rightarrow> string \<Rightarrow> popup \<Rightarrow> result \<times> popup" where
  "TwoFaForm_onFormSubmit callback c code w =
     (let w0 = w\<lparr>isSubmitting := True, error := None\<rparr> in
      if length code = 6 then
        (case client_verify2faCode c code w0 of
           (Rejected, w1) \<Rightarrow> (Fulfilled, TwoFaForm_catch w1)
         | (Fulfilled, w1) \<Rightarrow>
             (case client_trustDevice c w1 of
                (Rejected, w2) \<Rightarrow> (Fulfilled, TwoFaForm_catch w2)
              | (Fulfilled, w2) \<Rightarrow>
                  (case client_accountLogin c w2 of
                     (Rejected, w3) \<Rightarrow> (Fulfilled, TwoFaForm_catch w3)
                   | (Fulfilled, w3) \<Rightarrow>
                       (Fulfilled,
                        callback SUCCESSFUL_VERIFICATION (w3\<lparr>isSubmitting := False\<rparr>)))))
      else
        (Fulfilled,
         w0\<lparr>isSubmitting := False,
            error := Some ''Please fill in all of the 6 digits of the code.''\<rparr>))"

subsection \<open>Signing out\<close>

text \<open>
  \<open>logOut\<close> (lines 331 to 339) awaits the client's \<open>logOut\<close> and then updates the context
  menu; a failure of the update is caught and passed to \<open>console.debug\<close>. The outcome of
  \<open>browser.contextMenus.update\<close> is the parameter \<open>menu\<close>. The click handler of
  \<open>SignOutButton\<close> (lines 341 to 356) awaits \<open>logOut\<close> and then calls its callback with
  \<open>'SUCCESSFUL_SIGN_OUT'\<close>.
\<close>

definition logOut :: "client \<Rightarrow> result \<Rightarrow> popup \<Rightarrow> result \<times> popup" where
  "logOut c menu w =
     (case client_logOut c w of
        (Rejected, w1) \<Rightarrow> (Rejected, w1)
      | (Fulfilled, w1) \<Rightarrow>
          (let w2 = log_event ContextMenus_update w1
           in (Fulfilled, if menu = Fulfilled then w2 else log_event Console_debug w2)))"

definition SignOutButton_onClick ::
  "SignOutAction TransitionCallback \<Rightarrow> client \<Rightarrow> result \<Rightarrow> popup \<Rightarrow> result \<times> popup" where
  "SignOutButton_onClick callback c menu w =
     (case logOut c menu w of
        (Rejected, w1) \<Rightarrow> (Rejected, w1)
      | (Fulfilled, w1) \<Rightarrow> (Fulfilled, callback SUCCESSFUL_SIGN_OUT w1))"

text \<open>
  The sign-out button a screen renders, as the callback it hands to \<open>SignOutButton\<close>:
  \<open>TwoFaForm\<close> (line 266), \<open>HmeGenerator\<close> (line 547) and \<open>HmeManager\<close> (line 875) render
  \<open><SignOutButton {...props} />\<close>, which narrows the screen's own callback to the
  literal \<open>'SUCCESSFUL_SIGN_OUT'\<close>; \<open>SignInForm\<close> renders none.
\<close>

fun SignOutButton :: "ReactElement \<Rightarrow> SignOutAction TransitionCallback option" where
  "SignOutButton (SignInForm callback) = None"
| "SignOutButton (TwoFaForm callback) = Some (\<lambda>a. callback (asSignedInAction a))"
| "SignOutButton (HmeGenerator callback) = Some (\<lambda>a. callback (asVerifiedAction a))"
| "SignOutButton (HmeManager callback) =
     Some (\<lambda>a. callback (asVerifiedAndManagingAction a))"

subsection \<open>The popup: session refresh and revalidation\<close>

text \<open>
  \<open>refreshSessionCallback\<close> (lines 927 to 932) reads the persisted session data and sets
  it. The effect \<open>validateSession\<close> (lines 934 to 950) runs on mount and whenever the
  session data changes; it builds a client of its own, on a session without a refresh
  callback, and the client of the screens is built on a session with
  \<open>refreshSessionCallback\<close> (lines 952 to 957).
\<close>

definition refreshSessionCallback :: "popup \<Rightarrow> popup" where
  "refreshSessionCallback w = setSessionData (storedSessionData w) w"

definition validateSession :: "provider \<Rightarrow> result \<Rightarrow> popup \<Rightarrow> result \<times> popup" where
  "validateSession p menu w =
     (let c = ICloudClient p None in
      if client_authenticated c w then
        (case client_validateToken c w of
           (Fulfilled, w1) \<Rightarrow> (Fulfilled, w1)
         | (Rejected, w1) \<Rightarrow>
             (case logOut c menu w1 of
                (Rejected, w2) \<Rightarrow> (Rejected, w2)
              | (Fulfilled, w2) \<Rightarrow> (Fulfilled, setState SignedOut w2)))
      else (Fulfilled, w))"

definition Popup_client :: "provider \<Rightarrow> client" where
  "Popup_client p = ICloudClient p (Some refreshSessionCallback)"

subsection \<open>The management view\<close>

text \<open>
  The type \<open>HmeEmail\<close> is declared in iCloudClient.ts, which is not among the sources;
  these are fields Popup.tsx reads from it. The index logic below does not look inside
  an email.
\<close>

record HmeEmail =
  hme :: string
  label :: string
  isActive :: bool
  anonymousId :: string

text \<open>
  \<open>searchHmeEmails\<close> (lines 699 to 713) returns \<open>undefined\<close> for an empty prompt and
  otherwise the items the search engine finds; the engine, \<open>Fuse\<close> of fuse.js, is the
  parameter \<open>fuse\<close>. An array, the empty one too, is truthy in JavaScript, so
  \<open>searchHmeEmails(...) || fetchedHmeEmails\<close> falls back to the fetched list only for
  \<open>undefined\<close>. Reading an array at a number that is not one of its indices gives
  \<open>undefined\<close> (\<open>at_index\<close>).
\<close>

type_synonym Fuse = "string \<Rightarrow> HmeEmail list \<Rightarrow> HmeEmail list"

definition searchHmeEmails :: "Fuse \<Rightarrow> string \<Rightarrow> HmeEmail list \<Rightarrow> HmeEmail list option" where
  "searchHmeEmails fuse searchPrompt emails =
     (if searchPrompt = [] then None else Some (fuse searchPrompt emails))"

definition at_index :: "'a list \<Rightarrow> int \<Rightarrow> 'a option" where
  "at_index xs i = (if 0 \<le> i \<and> i < int (length xs) then Some (xs ! nat i) else None)"

text \<open>
  \<open>hmeListGrid\<close> (lines 760 to 836), one pass of rendering: the list on display, the call
  of \<open>setSelectedHmeIdx\<close> the pass makes if it makes one, the selected email as read with
  the index of this pass, whether the "No results" notice stands in place of the list of
  labels, and the email the details panel is rendered for, if it is rendered.
\<close>

record grid =
  hmeEmails :: "HmeEmail list"
  setSelectedHmeIdx :: "int option"
  selectedHmeEmail :: "HmeEmail option"
  noSearchResult :: bool
  HmeDetails :: "HmeEmail option"

definition hmeListGrid :: "Fuse \<Rightarrow> string option \<Rightarrow> int \<Rightarrow> HmeEmail list \<Rightarrow> grid" where
  "hmeListGrid fuse searchPrompt selectedHmeIdx fetchedHmeEmails =
     (let prompt = (case searchPrompt of None \<Rightarrow> [] | Some s \<Rightarrow> s);
          emails = (case searchHmeEmails fuse prompt fetchedHmeEmails of
                      None \<Rightarrow> fetchedHmeEmails
                    | Some found \<Rightarrow> found);
          selected = at_index emails selectedHmeIdx
      in \<lparr>hmeEmails = emails,
          setSelectedHmeIdx =
            (if selectedHmeIdx \<ge> int (length emails) then Some (int (length emails) - 1)
             else None),
          selectedHmeEmail = selected,
          noSearchResult = (length emails = 0 \<and> prompt \<noteq> []),
          HmeDetails = selected\<rparr>)"

text \<open>
  \<open>resolveMainChildComponent\<close> (lines 844 to 858) decides what the management view
  shows from the state of \<open>HmeManager\<close> (lines 719 to 723): the spinner while the list
  is being fetched, the error when one is set (a string is truthy when it is not
  empty), the notice "There are no emails to list" when nothing was fetched or the
  fetched list is empty, and only otherwise the grid. \<open>hmeListGrid\<close> is not called in
  the first three cases.
\<close>

datatype MainChild = Spinner | ErrorMessage string | emptyState | Grid grid

definition truthy :: "string option \<Rightarrow> bool" where
  "truthy s = (case s of Some (c # cs) \<Rightarrow> True | _ \<Rightarrow> False)"

definition resolveMainChildComponent ::
  "Fuse \<Rightarrow> bool \<Rightarrow> string option \<Rightarrow> HmeEmail list option \<Rightarrow> string option \<Rightarrow> int
     \<Rightarrow> MainChild" where
  "resolveMainChildComponent fuse isFetching hmeEmailsError fetchedHmeEmails searchPrompt
       selectedHmeIdx =
     (if isFetching then Spinner
      else
        case hmeEmailsError of
          Some (c # cs) \<Rightarrow> ErrorMessage (c # cs)
        | _ \<Rightarrow>
            (case fetchedHmeEmails of
               None \<Rightarrow> emptyState
             | Some fetched \<Rightarrow>
                 if length fetched = 0 then emptyState
                 else Grid (hmeListGrid fuse searchPrompt selectedHmeIdx fetched)))"

text \<open>
  React renders a component again, before anything is shown, when the component sets
  its own state while rendering: the pass is repeated with the new index until a pass
  sets none. \<open>HmeManager_render\<close> is the index after, and the main child of, the pass
  that is shown. A pass that does not reach \<open>hmeListGrid\<close> sets no index.
\<close>

function HmeManager_render ::
  "Fuse \<Rightarrow> bool \<Rightarrow> string option \<Rightarrow> HmeEmail list option \<Rightarrow> string option \<Rightarrow> int
     \<Rightarrow> int \<times> MainChild" where
  "HmeManager_render fuse isFetching hmeEmailsError fetchedHmeEmails searchPrompt
       selectedHmeIdx =
     (case resolveMainChildComponent fuse isFetching hmeEmailsError fetchedHmeEmails
             searchPrompt selectedHmeIdx of
        Grid g \<Rightarrow>
          (case setSelectedHmeIdx g of
             None \<Rightarrow> (selectedHmeIdx, Grid g)
           | Some i \<Rightarrow>
               HmeManager_render fuse isFetching hmeEmailsError fetchedHmeEmails
                 searchPrompt i)
      | child \<Rightarrow> (selectedHmeIdx, child))"
  by pat_completeness auto
termination
  by (relation "measure
        (\<lambda>(fuse, isFetching, hmeEmailsError, fetchedHmeEmails, searchPrompt, selectedHmeIdx).
           case resolveMainChildComponent fuse isFetching hmeEmailsError fetchedHmeEmails
                  searchPrompt selectedHmeIdx of
             Grid g \<Rightarrow> (case setSelectedHmeIdx g of None \<Rightarrow> 0 | Some i \<Rightarrow> 1)
           | child \<Rightarrow> 0)")
     (auto simp: resolveMainChildComponent_def hmeListGrid_def Let_def
           split: if_splits option.splits list.splits)

declare HmeManager_render.simps [simp del]

text \<open>
  A search engine for the examples below: it finds the emails whose label is the prompt.
\<close>

definition exact_label :: Fuse where
  "exact_label prompt emails = filter (\<lambda>e. label e = prompt) emails"

section \<open>Properties\<close>

subsection \<open>Auxiliary facts\<close>

lemma dispatcher_SignedOut:
  "transitionToNextStateElement SignedOut setSt =
     Inr (SignInForm (\<lambda>action. setSt (STATE_MACHINE_TRANSITIONS_SignedOut action)))"
  by (simp add: transitionToNextStateElement_def)

lemma dispatcher_SignedIn:
  "transitionToNextStateElement SignedIn setSt =
     Inr (TwoFaForm (\<lambda>action. setSt (STATE_MACHINE_TRANSITIONS_SignedIn action)))"
  by (simp add: transitionToNextStateElement_def)

lemma dispatcher_Verified:
  "transitionToNextStateElement Verified setSt =
     Inr (HmeGenerator (\<lambda>action. setSt (STATE_MACHINE_TRANSITIONS_Verified action)))"
  by (simp add: transitionToNextStateElement_def)

lemma dispatcher_VerifiedAndManaging:
  "transitionToNextStateElement VerifiedAndManaging setSt =
     Inr (HmeManager
           (\<lambda>action. setSt (STATE_MACHINE_TRANSITIONS_VerifiedAndManaging action)))"
  by (simp add: transitionToNextStateElement_def)

lemmas dispatcher_simps =
  dispatcher_SignedOut dispatcher_SignedIn dispatcher_Verified dispatcher_VerifiedAndManaging

lemma state_setState: "state (setState s w) = s"
  by (simp add: setState_def)

lemma transitions_SignedOut: "STATE_MACHINE_TRANSITIONS_SignedOut a = SignedIn"
  by (cases a) simp

text \<open>The screen on display determines the phase and the callback of the screen.\<close>

lemma Popup_SignInForm:
  "Popup w = Inr (SignInForm callback) \<Longrightarrow>
   state w = SignedOut \<and>
   callback = (\<lambda>action. setState (STATE_MACHINE_TRANSITIONS_SignedOut action))"
  by (cases "state w") (simp_all add: Popup_def dispatcher_simps)

lemma Popup_TwoFaForm:
  "Popup w = Inr (TwoFaForm callback) \<Longrightarrow>
   state w = SignedIn \<and>
   callback = (\<lambda>action. setState (STATE_MACHINE_TRANSITIONS_SignedIn action))"
  by (cases "state w") (simp_all add: Popup_def dispatcher_simps)

text \<open>
  The sign-out button of the screen of a phase: none for SignedOut, and otherwise a
  button whose callback sets the phase to SignedOut.
\<close>

lemma SignOutButton_dispatcher:
  assumes "transitionToNextStateElement st setState = Inr el"
  shows "SignOutButton el =
           (if st = SignedOut then None else Some (\<lambda>a. setState SignedOut))"
proof (cases st)
  case SignedOut
  with assms show ?thesis
    by (auto simp add: dispatcher_simps)
next
  case SignedIn
  have "(\<lambda>a. setState (STATE_MACHINE_TRANSITIONS_SignedIn (asSignedInAction a))) =
        (\<lambda>a. setState SignedOut)"
    by (rule ext) (case_tac a, simp)
  with SignedIn assms show ?thesis
    by (auto simp add: dispatcher_simps)
next
  case Verified
  have "(\<lambda>a. setState (STATE_MACHINE_TRANSITIONS_Verified (asVerifiedAction a))) =
        (\<lambda>a. setState SignedOut)"
    by (rule ext) (case_tac a, simp)
  with Verified assms show ?thesis
    by (auto simp add: dispatcher_simps)
next
  case VerifiedAndManaging
  have "(\<lambda>a. setState (STATE_MACHINE_TRANSITIONS_VerifiedAndManaging
                          (asVerifiedAndManagingAction a))) =
        (\<lambda>a. setState SignedOut)"
    by (rule ext) (case_tac a, simp)
  with VerifiedAndManaging assms show ?thesis
    by (auto simp add: dispatcher_simps)
qed

text \<open>The methods of the client modelled from the spec.\<close>

lemma ICloudClient_methods:
  "client_authenticated (ICloudClient p refresher) = authenticated"
  "client_validateToken (ICloudClient p refresher) = validateToken p"
  "client_refreshSession (ICloudClient p refresher) = refreshSession refresher"
  "client_verify2faCode (ICloudClient p refresher) = verify2faCode p"
  "client_trustDevice (ICloudClient p refresher) = trustDevice p"
  "client_accountLogin (ICloudClient p refresher) = accountLogin p"
  "client_logOut (ICloudClient p refresher) = ICloudClient_logOut p"
  by (simp_all add: ICloudClient_def)

text \<open>What \<open>logOut\<close> and a click on the sign-out button leave behind, with that client.\<close>

lemma logOut_ICloudClient:
  "logOut (ICloudClient p refresher) menu w =
     (Fulfilled,
      w\<lparr>sessionData := EMPTY_SESSION_DATA, storedSessionData := EMPTY_SESSION_DATA,
        trace := trace w @ [Call_logOut] @
                 (if invalidates_session p then [] else [Console_debug]) @
                 [Session_reset, ContextMenus_update] @
                 (if menu = Fulfilled then [] else [Console_debug])\<rparr>)"
  by (simp add: logOut_def ICloudClient_methods ICloudClient_logOut_def log_event_def
      setSessionData_def Let_def)

lemma SignOutButton_onClick_ICloudClient:
  "SignOutButton_onClick (\<lambda>a. setState SignedOut) (ICloudClient p refresher) menu w =
     (Fulfilled,
      w\<lparr>state := SignedOut,
        sessionData := EMPTY_SESSION_DATA, storedSessionData := EMPTY_SESSION_DATA,
        trace := trace w @ [Call_logOut] @
                 (if invalidates_session p then [] else [Console_debug]) @
                 [Session_reset, ContextMenus_update] @
                 (if menu = Fulfilled then [] else [Console_debug]) @
                 [SetState SignedOut]\<rparr>)"
  by (simp add: SignOutButton_onClick_def logOut_ICloudClient setState_def)

text \<open>The second-factor handler at the screen's callback, with that client.\<close>

lemma TwoFaForm_failure:
  "length code = 6 \<Longrightarrow>
   \<not> (accepts_code p \<and> trusts_device p \<and> login_markers p \<noteq> None) \<Longrightarrow>
   TwoFaForm_onFormSubmit callback (ICloudClient p refresher) code w =
     (Fulfilled,
      w\<lparr>isSubmitting := False,
        error := Some
          ''2FA failed. Please try entering the code again or sign-out and sign back in.'',
        trace := trace w @ Call_verify2faCode code #
                 (if accepts_code p
                  then Call_trustDevice # (if trusts_device p then [Call_accountLogin] else [])
                  else [])\<rparr>)"
  by (auto simp add: TwoFaForm_onFormSubmit_def ICloudClient_methods verify2faCode_def
      trustDevice_def accountLogin_def log_event_def TwoFaForm_catch_def Let_def)

lemma TwoFaForm_success:
  "length code = 6 \<Longrightarrow> accepts_code p \<Longrightarrow> trusts_device p \<Longrightarrow> login_markers p = Some m \<Longrightarrow>
   TwoFaForm_onFormSubmit (\<lambda>action. setState (STATE_MACHINE_TRANSITIONS_SignedIn action))
       (ICloudClient p refresher) code w =
     (Fulfilled,
      w\<lparr>state := Verified,
        sessionData := (sessionData w)\<lparr>markers := Some m\<rparr>,
        storedSessionData := (sessionData w)\<lparr>markers := Some m\<rparr>,
        isSubmitting := False, error := None,
        trace := trace w @ [Call_verify2faCode code, Call_trustDevice, Call_accountLogin,
                            SetState Verified]\<rparr>)"
  by (simp add: TwoFaForm_onFormSubmit_def ICloudClient_methods verify2faCode_def
      trustDevice_def accountLogin_def log_event_def setSessionData_def setState_def Let_def)

text \<open>The sign-in listener at the screen's callback, with the client of the screens.\<close>

lemma SignInForm_onMessage_success:
  "message_type message = LogInResponse \<Longrightarrow> success (message_data message) \<Longrightarrow>
   SignInForm_onMessage (\<lambda>action. setState (STATE_MACHINE_TRANSITIONS_SignedOut action))
       (Popup_client p) message w =
     (case action (message_data message) of
        None \<Rightarrow>
          (Fulfilled,
           w\<lparr>sessionData := storedSessionData w, isSubmitting := False,
             trace := trace w @ [Call_refreshSession]\<rparr>)
      | Some a \<Rightarrow>
          (Fulfilled,
           w\<lparr>state := SignedIn, sessionData := storedSessionData w, isSubmitting := False,
             trace := trace w @ [Call_refreshSession, SetState SignedIn]\<rparr>))"
  by (cases "action (message_data message)")
     (simp_all add: SignInForm_onMessage_def Popup_client_def ICloudClient_methods
      refreshSession_def refreshSessionCallback_def log_event_def setSessionData_def
      setState_def Let_def transitions_SignedOut)

lemma SignInForm_onMessage_failure:
  "message_type message = LogInResponse \<Longrightarrow> \<not> success (message_data message) \<Longrightarrow>
   SignInForm_onMessage callback c message w =
     (Fulfilled,
      w\<lparr>isSubmitting := False, error := Some ''Failed to sign in. Please try again.''\<rparr>)"
  by (simp add: SignInForm_onMessage_def Let_def)

text \<open>The grid: the list on display does not depend on the index; one and two passes.\<close>

lemma hmeListGrid_emails:
  "hmeEmails (hmeListGrid fuse searchPrompt i fetched) =
   hmeEmails (hmeListGrid fuse searchPrompt j fetched)"
  by (simp add: hmeListGrid_def Let_def)

lemma grid_selected:
  "selectedHmeEmail (hmeListGrid fuse searchPrompt idx fetched) =
     at_index (hmeEmails (hmeListGrid fuse searchPrompt idx fetched)) idx"
  "HmeDetails (hmeListGrid fuse searchPrompt idx fetched) =
     at_index (hmeEmails (hmeListGrid fuse searchPrompt idx fetched)) idx"
  "setSelectedHmeIdx (hmeListGrid fuse searchPrompt idx fetched) =
     (if int (length (hmeEmails (hmeListGrid fuse searchPrompt idx fetched))) \<le> idx
      then Some (int (length (hmeEmails (hmeListGrid fuse searchPrompt idx fetched))) - 1)
      else None)"
  by (simp_all add: hmeListGrid_def Let_def)

lemma resolve_Grid:
  assumes "\<not> isFetching" and "\<not> truthy hmeEmailsError" and "fetched \<noteq> []"
  shows "resolveMainChildComponent fuse isFetching hmeEmailsError (Some fetched)
           searchPrompt idx =
         Grid (hmeListGrid fuse searchPrompt idx fetched)"
  using assms
  by (auto simp add: resolveMainChildComponent_def truthy_def
      split: option.splits list.splits)

lemma resolve_no_Grid:
  assumes "isFetching \<or> truthy hmeEmailsError \<or> fetchedHmeEmails = None \<or>
           fetchedHmeEmails = Some []"
  shows "resolveMainChildComponent fuse isFetching hmeEmailsError fetchedHmeEmails
           searchPrompt idx \<noteq> Grid g"
  using assms
  by (auto simp add: resolveMainChildComponent_def truthy_def
      split: option.splits list.splits)

lemma render_no_Grid:
  assumes "isFetching \<or> truthy hmeEmailsError \<or> fetchedHmeEmails = None \<or>
           fetchedHmeEmails = Some []"
  shows "HmeManager_render fuse isFetching hmeEmailsError fetchedHmeEmails searchPrompt idx =
           (idx, resolveMainChildComponent fuse isFetching hmeEmailsError fetchedHmeEmails
                   searchPrompt idx)"
  using resolve_no_Grid [OF assms, of fuse searchPrompt idx]
  by (subst HmeManager_render.simps) (simp split: MainChild.splits)

lemma render_in_range:
  assumes "\<not> isFetching" and "\<not> truthy hmeEmailsError" and "fetched \<noteq> []"
    and "idx < int (length (hmeEmails (hmeListGrid fuse searchPrompt idx fetched)))"
  shows "HmeManager_render fuse isFetching hmeEmailsError (Some fetched) searchPrompt idx =
           (idx, Grid (hmeListGrid fuse searchPrompt idx fetched))"
  using assms(4)
  by (subst HmeManager_render.simps)
     (simp add: resolve_Grid [OF assms(1-3)] grid_selected)

lemma render_reset:
  assumes "\<not> isFetching" and "\<not> truthy hmeEmailsError" and "fetched \<noteq> []"
    and "int (length (hmeEmails (hmeListGrid fuse searchPrompt idx fetched))) \<le> idx"
  shows "HmeManager_render fuse isFetching hmeEmailsError (Some fetched) searchPrompt idx =
           (int (length (hmeEmails (hmeListGrid fuse searchPrompt idx fetched))) - 1,
            Grid (hmeListGrid fuse searchPrompt
              (int (length (hmeEmails (hmeListGrid fuse searchPrompt idx fetched))) - 1)
              fetched))"
proof -
  let ?n = "int (length (hmeEmails (hmeListGrid fuse searchPrompt idx fetched))) - 1"
  have step: "HmeManager_render fuse isFetching hmeEmailsError (Some fetched) searchPrompt idx =
              HmeManager_render fuse isFetching hmeEmailsError (Some fetched) searchPrompt ?n"
    using assms(4)
    by (subst HmeManager_render.simps)
       (simp add: resolve_Grid [OF assms(1-3)] grid_selected)
  have "?n < int (length (hmeEmails (hmeListGrid fuse searchPrompt ?n fetched)))"
    using hmeListGrid_emails [of fuse searchPrompt ?n fetched idx] by simp
  then have "HmeManager_render fuse isFetching hmeEmailsError (Some fetched) searchPrompt ?n =
             (?n, Grid (hmeListGrid fuse searchPrompt ?n fetched))"
    by (rule render_in_range [OF assms(1-3)])
  with step show ?thesis by simp
qed

subsection \<open>The transitions of the dispatcher\<close>

text \<open>
  C1. For every phase and every action of that phase, the callback the dispatcher gives
  to the screen of the phase sets the phase to the documented next phase: SignedOut goes
  to SignedIn on SUCCESSFUL_SIGN_IN; SignedIn goes to Verified on SUCCESSFUL_VERIFICATION
  and to SignedOut on SUCCESSFUL_SIGN_OUT; Verified goes to VerifiedAndManaging on MANAGE
  and to SignedOut on SUCCESSFUL_SIGN_OUT; VerifiedAndManaging goes to Verified on
  GENERATE and to SignedOut on SUCCESSFUL_SIGN_OUT. The dispatcher never takes the branch
  that throws "Unhandled PopupState case", whatever the phase.
\<close>

theorem dispatcher_transitions:
  "(\<exists>callback. transitionToNextStateElement SignedOut setState = Inr (SignInForm callback) \<and>
      (\<forall>w. state (callback SUCCESSFUL_SIGN_IN w) = SignedIn)) \<and>
   (\<exists>callback. transitionToNextStateElement SignedIn setState = Inr (TwoFaForm callback) \<and>
      (\<forall>w. state (callback SUCCESSFUL_VERIFICATION w) = Verified \<and>
           state (callback SignedIn_SUCCESSFUL_SIGN_OUT w) = SignedOut)) \<and>
   (\<exists>callback. transitionToNextStateElement Verified setState = Inr (HmeGenerator callback) \<and>
      (\<forall>w. state (callback MANAGE w) = VerifiedAndManaging \<and>
           state (callback Verified_SUCCESSFUL_SIGN_OUT w) = SignedOut)) \<and>
   (\<exists>callback.
      transitionToNextStateElement VerifiedAndManaging setState = Inr (HmeManager callback) \<and>
      (\<forall>w. state (callback GENERATE w) = Verified \<and>
           state (callback VerifiedAndManaging_SUCCESSFUL_SIGN_OUT w) = SignedOut)) \<and>
   (\<forall>st setSt message. transitionToNextStateElement st setSt \<noteq> Inl message)"
proof -
  have unreachable: "transitionToNextStateElement st setSt \<noteq> Inl message"
    for st setSt message
    by (cases st) (simp_all add: dispatcher_simps)
  show ?thesis
    by (simp add: dispatcher_simps state_setState unreachable)
qed

theorem dispatcher_transitions_witness:
  "(\<exists>callback. transitionToNextStateElement SignedIn setState = Inr (TwoFaForm callback) \<and>
      state (callback SUCCESSFUL_VERIFICATION
        \<lparr>state = SignedIn,
         sessionData = \<lparr>identifiers = [''scnt''], markers = None\<rparr>,
         storedSessionData = \<lparr>identifiers = [''scnt''], markers = None\<rparr>,
         isSubmitting = False, error = None, trace = []\<rparr>) = Verified) \<and>
   transitionToNextStateElement Verified setState \<noteq> Inl ''Unhandled PopupState case''"
  using dispatcher_transitions by blast

subsection \<open>A second-factor code of the wrong length\<close>

text \<open>
  C4. When the 2FA form is submitted with a code whose length is not 6, the handler
  calls no method of the client (for any client and any callback the popup is left as it
  was but for the form's own two fields, so the trace of calls and the session data are
  untouched), the inline error is exactly "Please fill in all of the 6 digits of the
  code.", and the phase is unchanged: it remains SignedIn when it was SignedIn.
\<close>

theorem short_code_makes_no_call:
  "length code \<noteq> 6 \<Longrightarrow>
   TwoFaForm_onFormSubmit callback c code w =
     (Fulfilled,
      w\<lparr>isSubmitting := False,
        error := Some ''Please fill in all of the 6 digits of the code.''\<rparr>) \<and>
   trace (snd (TwoFaForm_onFormSubmit callback c code w)) = trace w \<and>
   error (snd (TwoFaForm_onFormSubmit callback c code w)) =
     Some ''Please fill in all of the 6 digits of the code.'' \<and>
   state (snd (TwoFaForm_onFormSubmit callback c code w)) = state w \<and>
   sessionData (snd (TwoFaForm_onFormSubmit callback c code w)) = sessionData w"
  by (simp add: TwoFaForm_onFormSubmit_def)

theorem short_code_makes_no_call_witness:
  "length ''12'' \<noteq> 6 \<and>
   TwoFaForm_onFormSubmit
     (\<lambda>action. setState (STATE_MACHINE_TRANSITIONS_SignedIn action))
     (Popup_client
        \<lparr>accepts_code = True, trusts_device = True, login_markers = Some ''dsInfo'',
         token_valid = True, invalidates_session = True\<rparr>)
     ''12''
     \<lparr>state = SignedIn,
      sessionData = \<lparr>identifiers = [''scnt''], markers = None\<rparr>,
      storedSessionData = \<lparr>identifiers = [''scnt''], markers = None\<rparr>,
      isSubmitting = False, error = None, trace = []\<rparr> =
   (Fulfilled,
    \<lparr>state = SignedIn,
     sessionData = \<lparr>identifiers = [''scnt''], markers = None\<rparr>,
     storedSessionData = \<lparr>identifiers = [''scnt''], markers = None\<rparr>,
     isSubmitting = False,
     error = Some ''Please fill in all of the 6 digits of the code.'',
     trace = []\<rparr>)"
  using short_code_makes_no_call [of "''12''"
      "\<lambda>action. setState (STATE_MACHINE_TRANSITIONS_SignedIn action)"
      "Popup_client
        \<lparr>accepts_code = True, trusts_device = True, login_markers = Some ''dsInfo'',
         token_valid = True, invalidates_session = True\<rparr>"
      "\<lparr>state = SignedIn,
        sessionData = \<lparr>identifiers = [''scnt''], markers = None\<rparr>,
        storedSessionData = \<lparr>identifiers = [''scnt''], markers = None\<rparr>,
        isSubmitting = False, error = None, trace = []\<rparr>"]
  by simp

subsection \<open>Revalidation on activation\<close>

text \<open>
  C2, as amended. On every activation the effect \<open>validateSession\<close> looks at
  \<open>client.authenticated\<close>, not at whether a session is present. When the session is
  authenticated (its data carries the verified-session markers) it calls
  \<open>validateToken\<close>; if that call fails it performs \<open>logOut\<close> and then forces the phase to
  SignedOut, whatever the persisted phase was, and the session data is left empty; if the
  call succeeds nothing else changes. When the session is not authenticated, be it empty
  or present without the markers, the pass makes no call and leaves the phase and the
  session data as they were.
\<close>

theorem revalidation_pass:
  "validateSession p menu w =
     (if authenticated w then
        if token_valid p then (Fulfilled, w\<lparr>trace := trace w @ [Call_validateToken]\<rparr>)
        else
          (Fulfilled,
           w\<lparr>state := SignedOut,
             sessionData := EMPTY_SESSION_DATA, storedSessionData := EMPTY_SESSION_DATA,
             trace := trace w @ [Call_validateToken, Call_logOut] @
                      (if invalidates_session p then [] else [Console_debug]) @
                      [Session_reset, ContextMenus_update] @
                      (if menu = Fulfilled then [] else [Console_debug]) @
                      [SetState SignedOut]\<rparr>)
      else (Fulfilled, w))"
  by (simp add: validateSession_def ICloudClient_methods logOut_ICloudClient
      validateToken_def log_event_def setState_def Let_def)

theorem revalidation_pass_witness:
  "authenticated
     \<lparr>state = Verified,
      sessionData = \<lparr>identifiers = [''scnt''], markers = Some ''dsInfo''\<rparr>,
      storedSessionData = \<lparr>identifiers = [''scnt''], markers = Some ''dsInfo''\<rparr>,
      isSubmitting = False, error = None, trace = []\<rparr> \<and>
   validateSession
     \<lparr>accepts_code = True, trusts_device = True, login_markers = Some ''dsInfo'',
      token_valid = False, invalidates_session = False\<rparr>
     Fulfilled
     \<lparr>state = Verified,
      sessionData = \<lparr>identifiers = [''scnt''], markers = Some ''dsInfo''\<rparr>,
      storedSessionData = \<lparr>identifiers = [''scnt''], markers = Some ''dsInfo''\<rparr>,
      isSubmitting = False, error = None, trace = []\<rparr> =
   (Fulfilled,
    \<lparr>state = SignedOut,
     sessionData = \<lparr>identifiers = [], markers = None\<rparr>,
     storedSessionData = \<lparr>identifiers = [], markers = None\<rparr>,
     isSubmitting = False, error = None,
     trace = [Call_validateToken, Call_logOut, Console_debug, Session_reset,
              ContextMenus_update, SetState SignedOut]\<rparr>)"
  using revalidation_pass [of
      "\<lparr>accepts_code = True, trusts_device = True, login_markers = Some ''dsInfo'',
        token_valid = False, invalidates_session = False\<rparr>"
      Fulfilled
      "\<lparr>state = Verified,
        sessionData = \<lparr>identifiers = [''scnt''], markers = Some ''dsInfo''\<rparr>,
        storedSessionData = \<lparr>identifiers = [''scnt''], markers = Some ''dsInfo''\<rparr>,
        isSubmitting = False, error = None, trace = []\<rparr>"]
  by (simp add: authenticated_def EMPTY_SESSION_DATA_def)

text \<open>
  The claim as stated, "whenever a session is present the controller calls
  \<open>validateToken\<close>", fails for a session that is present and not yet verified: after
  sign-in and before the second factor the session data is not empty, the provider would
  reject the token probe, and the pass calls nothing.
\<close>

theorem revalidation_skips_unverified_session:
  "present \<lparr>identifiers = [''scnt''], markers = None\<rparr> \<and>
   \<not> token_valid
     \<lparr>accepts_code = True, trusts_device = True, login_markers = Some ''dsInfo'',
      token_valid = False, invalidates_session = True\<rparr> \<and>
   validateSession
     \<lparr>accepts_code = True, trusts_device = True, login_markers = Some ''dsInfo'',
      token_valid = False, invalidates_session = True\<rparr>
     Fulfilled
     \<lparr>state = SignedIn,
      sessionData = \<lparr>identifiers = [''scnt''], markers = None\<rparr>,
      storedSessionData = \<lparr>identifiers = [''scnt''], markers = None\<rparr>,
      isSubmitting = False, error = None, trace = []\<rparr> =
   (Fulfilled,
     \<lparr>state = SignedIn,
      sessionData = \<lparr>identifiers = [''scnt''], markers = None\<rparr>,
      storedSessionData = \<lparr>identifiers = [''scnt''], markers = None\<rparr>,
      isSubmitting = False, error = None, trace = []\<rparr>)"
  by (simp add: present_def EMPTY_SESSION_DATA_def validateSession_def ICloudClient_methods
      authenticated_def)

subsection \<open>A failed second factor\<close>

text \<open>
  C3. For every starting session data, if the sequence \<open>verify2faCode\<close>, \<open>trustDevice\<close>,
  \<open>accountLogin\<close> fails at the \<open>trustDevice\<close> step or at any other step, then after the
  failure is caught the session data, in memory and persisted, is equal to its value
  before the sequence began, the phase is unchanged, and the user is shown the one
  message "2FA failed. Please try entering the code again or sign-out and sign back in.";
  the calls made are those up to the failing one. The handler itself restores nothing:
  the session data is unchanged because the methods of the client, as the spec describes
  them, write it only when \<open>accountLogin\<close> succeeds.
\<close>

theorem failed_second_factor_keeps_session:
  assumes "length code = 6"
    and "\<not> (accepts_code p \<and> trusts_device p \<and> login_markers p \<noteq> None)"
  shows
   "TwoFaForm_onFormSubmit callback (Popup_client p) code w =
      (Fulfilled,
       w\<lparr>isSubmitting := False,
         error := Some
           ''2FA failed. Please try entering the code again or sign-out and sign back in.'',
         trace := trace w @ Call_verify2faCode code #
                  (if accepts_code p
                   then Call_trustDevice #
                        (if trusts_device p then [Call_accountLogin] else [])
                   else [])\<rparr>) \<and>
    sessionData (snd (TwoFaForm_onFormSubmit callback (Popup_client p) code w)) =
      sessionData w \<and>
    storedSessionData (snd (TwoFaForm_onFormSubmit callback (Popup_client p) code w)) =
      storedSessionData w \<and>
    state (snd (TwoFaForm_onFormSubmit callback (Popup_client p) code w)) = state w"
  using assms by (simp add: Popup_client_def TwoFaForm_failure)

theorem failed_second_factor_keeps_session_witness:
  "length ''123456'' = 6 \<and>
   TwoFaForm_onFormSubmit
     (\<lambda>action. setState (STATE_MACHINE_TRANSITIONS_SignedIn action))
     (Popup_client
        \<lparr>accepts_code = True, trusts_device = False, login_markers = Some ''dsInfo'',
         token_valid = True, invalidates_session = True\<rparr>)
     ''123456''
     \<lparr>state = SignedIn,
      sessionData = \<lparr>identifiers = [''scnt''], markers = None\<rparr>,
      storedSessionData = \<lparr>identifiers = [''scnt''], markers = None\<rparr>,
      isSubmitting = False, error = None, trace = []\<rparr> =
   (Fulfilled,
    \<lparr>state = SignedIn,
     sessionData = \<lparr>identifiers = [''scnt''], markers = None\<rparr>,
     storedSessionData = \<lparr>identifiers = [''scnt''], markers = None\<rparr>,
     isSubmitting = False,
     error = Some
       ''2FA failed. Please try entering the code again or sign-out and sign back in.'',
     trace = [Call_verify2faCode ''123456'', Call_trustDevice]\<rparr>)"
  using failed_second_factor_keeps_session [where code = "''123456''"
      and p = "\<lparr>accepts_code = True, trusts_device = False, login_markers = Some ''dsInfo'',
        token_valid = True, invalidates_session = True\<rparr>"
      and w = "\<lparr>state = SignedIn,
        sessionData = \<lparr>identifiers = [''scnt''], markers = None\<rparr>,
        storedSessionData = \<lparr>identifiers = [''scnt''], markers = None\<rparr>,
        isSubmitting = False, error = None, trace = []\<rparr>"
      and callback = "\<lambda>action. setState (STATE_MACHINE_TRANSITIONS_SignedIn action)"]
  by simp

subsection \<open>A successful second factor\<close>

text \<open>
  C5. With the 2FA form on screen (so the phase is SignedIn) and a code of 6 characters:
  when the provider accepts the code, trusts the device and finalises the session, the
  calls are \<open>verify2faCode\<close>, \<open>trustDevice\<close>, \<open>accountLogin\<close> in that order, followed by
  the transition SUCCESSFUL_VERIFICATION, which sets the phase to Verified, and
  \<open>authenticated\<close> is true afterwards. Each call is started only after the one before it
  succeeded: when the code is rejected only \<open>verify2faCode\<close> was called, and when the
  device is not trusted only \<open>verify2faCode\<close> and \<open>trustDevice\<close> were.
\<close>

theorem second_factor_sequence:
  assumes "Popup w = Inr (TwoFaForm callback)" and "length code = 6"
  shows
   "(accepts_code p \<and> trusts_device p \<and> login_markers p = Some m \<longrightarrow>
       TwoFaForm_onFormSubmit callback (Popup_client p) code w =
         (Fulfilled,
          w\<lparr>state := Verified,
            sessionData := (sessionData w)\<lparr>markers := Some m\<rparr>,
            storedSessionData := (sessionData w)\<lparr>markers := Some m\<rparr>,
            isSubmitting := False, error := None,
            trace := trace w @ [Call_verify2faCode code, Call_trustDevice,
                                Call_accountLogin, SetState Verified]\<rparr>) \<and>
       state w = SignedIn \<and>
       state (snd (TwoFaForm_onFormSubmit callback (Popup_client p) code w)) = Verified \<and>
       authenticated (snd (TwoFaForm_onFormSubmit callback (Popup_client p) code w))) \<and>
    (\<not> accepts_code p \<longrightarrow>
       trace (snd (TwoFaForm_onFormSubmit callback (Popup_client p) code w)) =
         trace w @ [Call_verify2faCode code]) \<and>
    (accepts_code p \<and> \<not> trusts_device p \<longrightarrow>
       trace (snd (TwoFaForm_onFormSubmit callback (Popup_client p) code w)) =
         trace w @ [Call_verify2faCode code, Call_trustDevice])"
proof -
  from assms(1) have st: "state w = SignedIn"
    and cb: "callback = (\<lambda>action. setState (STATE_MACHINE_TRANSITIONS_SignedIn action))"
    using Popup_TwoFaForm by blast+
  have ok: "accepts_code p \<and> trusts_device p \<and> login_markers p = Some m \<longrightarrow>
       TwoFaForm_onFormSubmit callback (Popup_client p) code w =
         (Fulfilled,
          w\<lparr>state := Verified,
            sessionData := (sessionData w)\<lparr>markers := Some m\<rparr>,
            storedSessionData := (sessionData w)\<lparr>markers := Some m\<rparr>,
            isSubmitting := False, error := None,
            trace := trace w @ [Call_verify2faCode code, Call_trustDevice,
                                Call_accountLogin, SetState Verified]\<rparr>)"
    using assms(2) by (simp add: cb Popup_client_def TwoFaForm_success)
  have no_verify: "\<not> accepts_code p \<longrightarrow>
       trace (snd (TwoFaForm_onFormSubmit callback (Popup_client p) code w)) =
         trace w @ [Call_verify2faCode code]"
    using assms(2) by (simp add: Popup_client_def TwoFaForm_failure)
  have no_trust: "accepts_code p \<and> \<not> trusts_device p \<longrightarrow>
       trace (snd (TwoFaForm_onFormSubmit callback (Popup_client p) code w)) =
         trace w @ [Call_verify2faCode code, Call_trustDevice]"
    using assms(2) by (simp add: Popup_client_def TwoFaForm_failure)
  from ok st no_verify no_trust show ?thesis
    by (simp add: authenticated_def)
qed

theorem second_factor_sequence_witness:
  "Popup
     \<lparr>state = SignedIn,
      sessionData = \<lparr>identifiers = [''scnt''], markers = None\<rparr>,
      storedSessionData = \<lparr>identifiers = [''scnt''], markers = None\<rparr>,
      isSubmitting = False, error = None, trace = []\<rparr> =
     Inr (TwoFaForm (\<lambda>action. setState (STATE_MACHINE_TRANSITIONS_SignedIn action))) \<and>
   length ''123456'' = 6 \<and>
   TwoFaForm_onFormSubmit
     (\<lambda>action. setState (STATE_MACHINE_TRANSITIONS_SignedIn action))
     (Popup_client
        \<lparr>accepts_code = True, trusts_device = True, login_markers = Some ''dsInfo'',
         token_valid = True, invalidates_session = True\<rparr>)
     ''123456''
     \<lparr>state = SignedIn,
      sessionData = \<lparr>identifiers = [''scnt''], markers = None\<rparr>,
      storedSessionData = \<lparr>identifiers = [''scnt''], markers = None\<rparr>,
      isSubmitting = False, error = None, trace = []\<rparr> =
   (Fulfilled,
    \<lparr>state = Verified,
     sessionData = \<lparr>identifiers = [''scnt''], markers = Some ''dsInfo''\<rparr>,
     storedSessionData = \<lparr>identifiers = [''scnt''], markers = Some ''dsInfo''\<rparr>,
     isSubmitting = False, error = None,
     trace = [Call_verify2faCode ''123456'', Call_trustDevice, Call_accountLogin,
              SetState Verified]\<rparr>)"
proof -
  let ?w = "\<lparr>state = SignedIn,
      sessionData = \<lparr>identifiers = [''scnt''], markers = None\<rparr>,
      storedSessionData = \<lparr>identifiers = [''scnt''], markers = None\<rparr>,
      isSubmitting = False, error = None, trace = []\<rparr>"
  let ?p = "\<lparr>accepts_code = True, trusts_device = True, login_markers = Some ''dsInfo'',
         token_valid = True, invalidates_session = True\<rparr>"
  have screen: "Popup ?w =
      Inr (TwoFaForm (\<lambda>action. setState (STATE_MACHINE_TRANSITIONS_SignedIn action)))"
    by (simp add: Popup_def dispatcher_simps)
  have six: "length ''123456'' = 6" by simp
  from second_factor_sequence [OF screen six, where p = ?p and m = "''dsInfo''"] screen
  show ?thesis by simp
qed

subsection \<open>The sign-out button\<close>

text \<open>
  C6. The screen of the phase SignedOut has no sign-out button; the screen of every other
  phase (SignedIn, Verified, VerifiedAndManaging) has one, and a click on it performs
  \<open>logOut\<close>, which leaves the session data empty, and then applies SUCCESSFUL_SIGN_OUT,
  which sets the phase to SignedOut: both happen, in that order, from whichever phase
  the click came and whatever the provider and the browser answered.
\<close>

theorem sign_out_button:
  assumes "transitionToNextStateElement st setState = Inr el"
  shows
   "(st = SignedOut \<longrightarrow> SignOutButton el = None) \<and>
    (st \<noteq> SignedOut \<longrightarrow>
       (\<exists>callback. SignOutButton el = Some callback \<and>
          SignOutButton_onClick callback (Popup_client p) menu w =
            (Fulfilled,
             w\<lparr>state := SignedOut,
               sessionData := EMPTY_SESSION_DATA, storedSessionData := EMPTY_SESSION_DATA,
               trace := trace w @ [Call_logOut] @
                        (if invalidates_session p then [] else [Console_debug]) @
                        [Session_reset, ContextMenus_update] @
                        (if menu = Fulfilled then [] else [Console_debug]) @
                        [SetState SignedOut]\<rparr>)))"
  using SignOutButton_dispatcher [OF assms]
  by (simp add: Popup_client_def SignOutButton_onClick_ICloudClient)

theorem sign_out_button_witness:
  "transitionToNextStateElement VerifiedAndManaging setState =
     Inr (HmeManager
           (\<lambda>action. setState (STATE_MACHINE_TRANSITIONS_VerifiedAndManaging action))) \<and>
   (\<exists>callback.
      SignOutButton
        (HmeManager
          (\<lambda>action. setState (STATE_MACHINE_TRANSITIONS_VerifiedAndManaging action))) =
        Some callback \<and>
      SignOutButton_onClick callback
        (Popup_client
          \<lparr>accepts_code = True, trusts_device = True, login_markers = Some ''dsInfo'',
           token_valid = True, invalidates_session = True\<rparr>)
        Fulfilled
        \<lparr>state = VerifiedAndManaging,
         sessionData = \<lparr>identifiers = [''scnt''], markers = Some ''dsInfo''\<rparr>,
         storedSessionData = \<lparr>identifiers = [''scnt''], markers = Some ''dsInfo''\<rparr>,
         isSubmitting = False, error = None, trace = []\<rparr> =
      (Fulfilled,
       \<lparr>state = SignedOut,
        sessionData = \<lparr>identifiers = [], markers = None\<rparr>,
        storedSessionData = \<lparr>identifiers = [], markers = None\<rparr>,
        isSubmitting = False, error = None,
        trace = [Call_logOut, Session_reset, ContextMenus_update, SetState SignedOut]\<rparr>))"
proof -
  have screen: "transitionToNextStateElement VerifiedAndManaging setState =
     Inr (HmeManager
           (\<lambda>action. setState (STATE_MACHINE_TRANSITIONS_VerifiedAndManaging action)))"
    by (simp add: dispatcher_simps)
  from sign_out_button [OF screen, where
      p = "\<lparr>accepts_code = True, trusts_device = True, login_markers = Some ''dsInfo'',
           token_valid = True, invalidates_session = True\<rparr>"
      and menu = Fulfilled
      and w = "\<lparr>state = VerifiedAndManaging,
         sessionData = \<lparr>identifiers = [''scnt''], markers = Some ''dsInfo''\<rparr>,
         storedSessionData = \<lparr>identifiers = [''scnt''], markers = Some ''dsInfo''\<rparr>,
         isSubmitting = False, error = None, trace = []\<rparr>"] screen
  show ?thesis by (simp add: EMPTY_SESSION_DATA_def)
qed

subsection \<open>A failing remote sign-out\<close>

text \<open>
  C7. Whether or not the remote invalidation of the session succeeds, the client's
  \<open>logOut\<close> is fulfilled and the local session data is cleared after the remote call was
  made; a failure of the remote call leaves only a log entry. \<open>logOut\<close> of Popup.tsx is
  fulfilled as well, whether or not the update of the context menu succeeds, and leaves
  the session data empty, and the click handler of the sign-out button is fulfilled: no
  error reaches the caller.
\<close>

theorem logOut_always_clears:
  "ICloudClient_logOut p w =
     (Fulfilled,
      w\<lparr>sessionData := EMPTY_SESSION_DATA, storedSessionData := EMPTY_SESSION_DATA,
        trace := trace w @ [Call_logOut] @
                 (if invalidates_session p then [] else [Console_debug]) @
                 [Session_reset]\<rparr>) \<and>
   logOut (ICloudClient p refresher) menu w =
     (Fulfilled,
      w\<lparr>sessionData := EMPTY_SESSION_DATA, storedSessionData := EMPTY_SESSION_DATA,
        trace := trace w @ [Call_logOut] @
                 (if invalidates_session p then [] else [Console_debug]) @
                 [Session_reset, ContextMenus_update] @
                 (if menu = Fulfilled then [] else [Console_debug])\<rparr>) \<and>
   fst (SignOutButton_onClick callback (ICloudClient p refresher) menu w) = Fulfilled"
  by (simp add: logOut_ICloudClient SignOutButton_onClick_def ICloudClient_logOut_def
      log_event_def setSessionData_def Let_def)

theorem logOut_always_clears_witness:
  "logOut
     (ICloudClient
        \<lparr>accepts_code = True, trusts_device = True, login_markers = Some ''dsInfo'',
         token_valid = True, invalidates_session = False\<rparr>
        None)
     Rejected
     \<lparr>state = Verified,
      sessionData = \<lparr>identifiers = [''scnt''], markers = Some ''dsInfo''\<rparr>,
      storedSessionData = \<lparr>identifiers = [''scnt''], markers = Some ''dsInfo''\<rparr>,
      isSubmitting = False, error = None, trace = []\<rparr> =
   (Fulfilled,
    \<lparr>state = Verified,
     sessionData = \<lparr>identifiers = [], markers = None\<rparr>,
     storedSessionData = \<lparr>identifiers = [], markers = None\<rparr>,
     isSubmitting = False, error = None,
     trace = [Call_logOut, Console_debug, Session_reset, ContextMenus_update,
              Console_debug]\<rparr>)"
  using logOut_always_clears [where
      p = "\<lparr>accepts_code = True, trusts_device = True, login_markers = Some ''dsInfo'',
         token_valid = True, invalidates_session = False\<rparr>"
      and refresher = None and menu = Rejected
      and w = "\<lparr>state = Verified,
        sessionData = \<lparr>identifiers = [''scnt''], markers = Some ''dsInfo''\<rparr>,
        storedSessionData = \<lparr>identifiers = [''scnt''], markers = Some ''dsInfo''\<rparr>,
        isSubmitting = False, error = None, trace = []\<rparr>"]
  by (simp add: EMPTY_SESSION_DATA_def)

subsection \<open>The response to a sign-in\<close>

text \<open>
  C8. With the sign-in form on screen (so the phase is SignedOut): when the sign-in
  response reports success, the listener first performs \<open>refreshSession\<close>, which sets the
  session data of the popup to the persisted value, and only then applies the action of
  the response; with the action SUCCESSFUL_SIGN_IN the phase becomes SignedIn, and the
  session data is not empty if the persisted value, written by the background sign-in,
  is not empty. A successful response without an action refreshes the session and
  applies no transition. When the response reports failure, the inline error "Failed to
  sign in. Please try again." is set and nothing else changes: no transition is applied.
\<close>

theorem sign_in_response:
  assumes "Popup w = Inr (SignInForm callback)"
    and "message_type message = LogInResponse"
  shows
   "(success (message_data message) \<and>
     action (message_data message) = Some SUCCESSFUL_SIGN_IN \<longrightarrow>
       SignInForm_onMessage callback (Popup_client p) message w =
         (Fulfilled,
          w\<lparr>state := SignedIn, sessionData := storedSessionData w, isSubmitting := False,
            trace := trace w @ [Call_refreshSession, SetState SignedIn]\<rparr>) \<and>
       state w = SignedOut \<and>
       (present (storedSessionData w) \<longrightarrow>
          present (sessionData
            (snd (SignInForm_onMessage callback (Popup_client p) message w))))) \<and>
    (success (message_data message) \<and> action (message_data message) = None \<longrightarrow>
       SignInForm_onMessage callback (Popup_client p) message w =
         (Fulfilled,
          w\<lparr>sessionData := storedSessionData w, isSubmitting := False,
            trace := trace w @ [Call_refreshSession]\<rparr>)) \<and>
    (\<not> success (message_data message) \<longrightarrow>
       SignInForm_onMessage callback (Popup_client p) message w =
         (Fulfilled,
          w\<lparr>isSubmitting := False,
            error := Some ''Failed to sign in. Please try again.''\<rparr>))"
proof -
  from assms(1) have st: "state w = SignedOut"
    and cb: "callback = (\<lambda>action. setState (STATE_MACHINE_TRANSITIONS_SignedOut action))"
    using Popup_SignInForm by blast+
  show ?thesis
    using assms(2) st
    by (simp add: cb SignInForm_onMessage_success SignInForm_onMessage_failure)
qed

theorem sign_in_response_witness:
  "Popup
     \<lparr>state = SignedOut,
      sessionData = \<lparr>identifiers = [], markers = None\<rparr>,
      storedSessionData = \<lparr>identifiers = [''scnt''], markers = None\<rparr>,
      isSubmitting = True, error = None, trace = []\<rparr> =
     Inr (SignInForm (\<lambda>action. setState (STATE_MACHINE_TRANSITIONS_SignedOut action))) \<and>
   present \<lparr>identifiers = [''scnt''], markers = None\<rparr> \<and>
   SignInForm_onMessage
     (\<lambda>action. setState (STATE_MACHINE_TRANSITIONS_SignedOut action))
     (Popup_client
        \<lparr>accepts_code = True, trusts_device = True, login_markers = Some ''dsInfo'',
         token_valid = True, invalidates_session = True\<rparr>)
     \<lparr>message_type = LogInResponse,
      message_data = \<lparr>success = True, action = Some SUCCESSFUL_SIGN_IN\<rparr>\<rparr>
     \<lparr>state = SignedOut,
      sessionData = \<lparr>identifiers = [], markers = None\<rparr>,
      storedSessionData = \<lparr>identifiers = [''scnt''], markers = None\<rparr>,
      isSubmitting = True, error = None, trace = []\<rparr> =
   (Fulfilled,
    \<lparr>state = SignedIn,
     sessionData = \<lparr>identifiers = [''scnt''], markers = None\<rparr>,
     storedSessionData = \<lparr>identifiers = [''scnt''], markers = None\<rparr>,
     isSubmitting = False, error = None,
     trace = [Call_refreshSession, SetState SignedIn]\<rparr>)"
proof -
  let ?w = "\<lparr>state = SignedOut,
      sessionData = \<lparr>identifiers = [], markers = None\<rparr>,
      storedSessionData = \<lparr>identifiers = [''scnt''], markers = None\<rparr>,
      isSubmitting = True, error = None, trace = []\<rparr>"
  let ?message = "\<lparr>message_type = LogInResponse,
      message_data = \<lparr>success = True, action = Some SUCCESSFUL_SIGN_IN\<rparr>\<rparr>"
  have screen: "Popup ?w =
      Inr (SignInForm (\<lambda>action. setState (STATE_MACHINE_TRANSITIONS_SignedOut action)))"
    by (simp add: Popup_def dispatcher_simps)
  have response: "message_type ?message = LogInResponse" by simp
  from sign_in_response [OF screen response, where
      p = "\<lparr>accepts_code = True, trusts_device = True, login_markers = Some ''dsInfo'',
         token_valid = True, invalidates_session = True\<rparr>"] screen
  show ?thesis by (simp add: present_def EMPTY_SESSION_DATA_def)
qed

subsection \<open>Signing out twice\<close>

text \<open>
  C9. Clicking the sign-out button of a screen twice in a row (the same handler, bound
  to the phase of that screen), from any state of the popup and whatever the provider
  and the browser answer each time, leaves the same session data and the same phase as
  clicking it once: the session data is \<open>EMPTY_SESSION_DATA\<close> and the phase is
  SignedOut, and both clicks are fulfilled. \<open>logOut\<close> alone is idempotent on the session
  data in the same way.
\<close>

theorem sign_out_twice:
  assumes "transitionToNextStateElement st setState = Inr el"
    and "SignOutButton el = Some callback"
  shows
   "(let first = SignOutButton_onClick callback (Popup_client p1) menu1 w;
         second = SignOutButton_onClick callback (Popup_client p2) menu2 (snd first)
     in fst first = Fulfilled \<and> fst second = Fulfilled \<and>
        sessionData (snd first) = EMPTY_SESSION_DATA \<and>
        storedSessionData (snd first) = EMPTY_SESSION_DATA \<and>
        state (snd first) = SignedOut \<and>
        sessionData (snd second) = sessionData (snd first) \<and>
        storedSessionData (snd second) = storedSessionData (snd first) \<and>
        state (snd second) = state (snd first)) \<and>
    sessionData (snd (logOut (Popup_client p2) menu2
                   (snd (logOut (Popup_client p1) menu1 w)))) =
      sessionData (snd (logOut (Popup_client p1) menu1 w)) \<and>
    sessionData (snd (logOut (Popup_client p1) menu1 w)) = EMPTY_SESSION_DATA"
proof -
  from SignOutButton_dispatcher [OF assms(1)] assms(2)
  have cb: "callback = (\<lambda>a. setState SignedOut)"
    by (simp split: if_splits)
  show ?thesis
    by (simp add: cb Popup_client_def SignOutButton_onClick_ICloudClient
        logOut_ICloudClient Let_def)
qed

theorem sign_out_twice_witness:
  "transitionToNextStateElement Verified setState =
     Inr (HmeGenerator (\<lambda>action. setState (STATE_MACHINE_TRANSITIONS_Verified action))) \<and>
   SignOutButton
     (HmeGenerator (\<lambda>action. setState (STATE_MACHINE_TRANSITIONS_Verified action))) =
     Some (\<lambda>a. setState (STATE_MACHINE_TRANSITIONS_Verified (asVerifiedAction a))) \<and>
   state (snd (SignOutButton_onClick
     (\<lambda>a. setState (STATE_MACHINE_TRANSITIONS_Verified (asVerifiedAction a)))
     (Popup_client
        \<lparr>accepts_code = True, trusts_device = True, login_markers = Some ''dsInfo'',
         token_valid = True, invalidates_session = False\<rparr>)
     Fulfilled
     (snd (SignOutButton_onClick
       (\<lambda>a. setState (STATE_MACHINE_TRANSITIONS_Verified (asVerifiedAction a)))
       (Popup_client
          \<lparr>accepts_code = True, trusts_device = True, login_markers = Some ''dsInfo'',
           token_valid = True, invalidates_session = True\<rparr>)
       Fulfilled
       \<lparr>state = Verified,
        sessionData = \<lparr>identifiers = [''scnt''], markers = Some ''dsInfo''\<rparr>,
        storedSessionData = \<lparr>identifiers = [''scnt''], markers = Some ''dsInfo''\<rparr>,
        isSubmitting = False, error = None, trace = []\<rparr>)))) = SignedOut \<and>
   sessionData (snd (SignOutButton_onClick
     (\<lambda>a. setState (STATE_MACHINE_TRANSITIONS_Verified (asVerifiedAction a)))
     (Popup_client
        \<lparr>accepts_code = True, trusts_device = True, login_markers = Some ''dsInfo'',
         token_valid = True, invalidates_session = False\<rparr>)
     Fulfilled
     (snd (SignOutButton_onClick
       (\<lambda>a. setState (STATE_MACHINE_TRANSITIONS_Verified (asVerifiedAction a)))
       (Popup_client
          \<lparr>accepts_code = True, trusts_device = True, login_markers = Some ''dsInfo'',
           token_valid = True, invalidates_session = True\<rparr>)
       Fulfilled
       \<lparr>state = Verified,
        sessionData = \<lparr>identifiers = [''scnt''], markers = Some ''dsInfo''\<rparr>,
        storedSessionData = \<lparr>identifiers = [''scnt''], markers = Some ''dsInfo''\<rparr>,
        isSubmitting = False, error = None, trace = []\<rparr>)))) =
     \<lparr>identifiers = [], markers = None\<rparr>"
proof -
  let ?cb = "\<lambda>a. setState (STATE_MACHINE_TRANSITIONS_Verified (asVerifiedAction a))"
  have screen: "transitionToNextStateElement Verified setState =
     Inr (HmeGenerator (\<lambda>action. setState (STATE_MACHINE_TRANSITIONS_Verified action)))"
    by (simp add: dispatcher_simps)
  have button: "SignOutButton
     (HmeGenerator (\<lambda>action. setState (STATE_MACHINE_TRANSITIONS_Verified action))) =
     Some ?cb"
    by simp
  from sign_out_twice [OF screen button, where
      ?p1.0 = "\<lparr>accepts_code = True, trusts_device = True, login_markers = Some ''dsInfo'',
           token_valid = True, invalidates_session = True\<rparr>"
      and ?p2.0 = "\<lparr>accepts_code = True, trusts_device = True,
           login_markers = Some ''dsInfo'',
           token_valid = True, invalidates_session = False\<rparr>"
      and ?menu1.0 = Fulfilled and ?menu2.0 = Fulfilled
      and w = "\<lparr>state = Verified,
        sessionData = \<lparr>identifiers = [''scnt''], markers = Some ''dsInfo''\<rparr>,
        storedSessionData = \<lparr>identifiers = [''scnt''], markers = Some ''dsInfo''\<rparr>,
        isSubmitting = False, error = None, trace = []\<rparr>"] screen button
  show ?thesis by (simp add: Let_def EMPTY_SESSION_DATA_def)
qed

subsection \<open>The selected email of the management view\<close>

text \<open>
  C10, as amended. The grid is rendered only when the list was fetched without error
  and is not empty; otherwise \<open>hmeListGrid\<close> is not called, the selected index is left
  as it is and no details panel is rendered. When the grid is rendered: whenever the
  list on display is not longer than the selected index, \<open>hmeListGrid\<close> resets the
  index to the length minus one. In the pass that is shown the index is not reset again
  and the details panel is rendered exactly for the selected email. For a non-empty
  list on display and an index that is not negative, the index shown is the smaller of
  the index and the length minus one, the selected email exists and the details panel
  renders it. For an empty filtered list and an index that is not negative, the index
  becomes -1, the selected email is undefined and no details panel is rendered. For a
  negative index (the -1 that an earlier empty search result left behind) the index is
  not reset, the selected email is undefined and no details panel is rendered, whatever
  the list on display.
\<close>

theorem selection_after_render:
  assumes "HmeManager_render fuse isFetching hmeEmailsError fetchedHmeEmails searchPrompt idx
             = (idx', child)"
  shows
   "(isFetching \<or> truthy hmeEmailsError \<or> fetchedHmeEmails = None \<or>
     fetchedHmeEmails = Some [] \<longrightarrow>
       idx' = idx \<and> (\<forall>g. child \<noteq> Grid g)) \<and>
    (\<forall>fetched.
       \<not> isFetching \<and> \<not> truthy hmeEmailsError \<and> fetchedHmeEmails = Some fetched \<and>
       fetched \<noteq> [] \<longrightarrow>
       (\<exists>g. child = Grid g \<and>
          (int (length (hmeEmails g)) \<le> idx \<longrightarrow>
             setSelectedHmeIdx (hmeListGrid fuse searchPrompt idx fetched) =
               Some (int (length (hmeEmails g)) - 1)) \<and>
          hmeEmails g = hmeEmails (hmeListGrid fuse searchPrompt idx fetched) \<and>
          setSelectedHmeIdx g = None \<and>
          HmeDetails g = selectedHmeEmail g \<and>
          (0 \<le> idx \<and> hmeEmails g \<noteq> [] \<longrightarrow>
             idx' = min idx (int (length (hmeEmails g)) - 1) \<and>
             selectedHmeEmail g = Some (hmeEmails g ! nat idx')) \<and>
          (0 \<le> idx \<and> hmeEmails g = [] \<longrightarrow> idx' = - 1 \<and> selectedHmeEmail g = None) \<and>
          (idx < 0 \<longrightarrow> idx' = idx \<and> selectedHmeEmail g = None)))"
proof -
  have hidden: "isFetching \<or> truthy hmeEmailsError \<or> fetchedHmeEmails = None \<or>
     fetchedHmeEmails = Some [] \<longrightarrow>
       idx' = idx \<and> (\<forall>g. child \<noteq> Grid g)"
  proof (rule impI)
    assume no_grid: "isFetching \<or> truthy hmeEmailsError \<or> fetchedHmeEmails = None \<or>
                     fetchedHmeEmails = Some []"
    from render_no_Grid [OF no_grid, of fuse searchPrompt idx] assms
    have "(idx', child) =
          (idx, resolveMainChildComponent fuse isFetching hmeEmailsError
                  fetchedHmeEmails searchPrompt idx)"
      by (simp only:)
    then have "idx' = idx"
      and "child = resolveMainChildComponent fuse isFetching hmeEmailsError
                     fetchedHmeEmails searchPrompt idx"
      by simp_all
    with resolve_no_Grid [OF no_grid, of fuse searchPrompt idx]
    show "idx' = idx \<and> (\<forall>g. child \<noteq> Grid g)" by simp
  qed
  have rendered: "\<not> isFetching \<and> \<not> truthy hmeEmailsError \<and>
       fetchedHmeEmails = Some fetched \<and> fetched \<noteq> [] \<longrightarrow>
       (\<exists>g. child = Grid g \<and>
          (int (length (hmeEmails g)) \<le> idx \<longrightarrow>
             setSelectedHmeIdx (hmeListGrid fuse searchPrompt idx fetched) =
               Some (int (length (hmeEmails g)) - 1)) \<and>
          hmeEmails g = hmeEmails (hmeListGrid fuse searchPrompt idx fetched) \<and>
          setSelectedHmeIdx g = None \<and>
          HmeDetails g = selectedHmeEmail g \<and>
          (0 \<le> idx \<and> hmeEmails g \<noteq> [] \<longrightarrow>
             idx' = min idx (int (length (hmeEmails g)) - 1) \<and>
             selectedHmeEmail g = Some (hmeEmails g ! nat idx')) \<and>
          (0 \<le> idx \<and> hmeEmails g = [] \<longrightarrow> idx' = - 1 \<and> selectedHmeEmail g = None) \<and>
          (idx < 0 \<longrightarrow> idx' = idx \<and> selectedHmeEmail g = None))" for fetched
  proof (rule impI)
    assume shown: "\<not> isFetching \<and> \<not> truthy hmeEmailsError \<and>
                   fetchedHmeEmails = Some fetched \<and> fetched \<noteq> []"
    then have a: "\<not> isFetching" and b: "\<not> truthy hmeEmailsError" and c: "fetched \<noteq> []"
      and f: "fetchedHmeEmails = Some fetched"
      by simp_all
    let ?g0 = "hmeListGrid fuse searchPrompt idx fetched"
    let ?n = "int (length (hmeEmails ?g0))"
    let ?P = "\<lambda>g.
          (int (length (hmeEmails g)) \<le> idx \<longrightarrow>
             setSelectedHmeIdx (hmeListGrid fuse searchPrompt idx fetched) =
               Some (int (length (hmeEmails g)) - 1)) \<and>
          hmeEmails g = hmeEmails (hmeListGrid fuse searchPrompt idx fetched) \<and>
          setSelectedHmeIdx g = None \<and>
          HmeDetails g = selectedHmeEmail g \<and>
          (0 \<le> idx \<and> hmeEmails g \<noteq> [] \<longrightarrow>
             idx' = min idx (int (length (hmeEmails g)) - 1) \<and>
             selectedHmeEmail g = Some (hmeEmails g ! nat idx')) \<and>
          (0 \<le> idx \<and> hmeEmails g = [] \<longrightarrow> idx' = - 1 \<and> selectedHmeEmail g = None) \<and>
          (idx < 0 \<longrightarrow> idx' = idx \<and> selectedHmeEmail g = None)"
    show "\<exists>g. child = Grid g \<and> ?P g"
    proof (cases "?n \<le> idx")
      case True
      define g where "g = hmeListGrid fuse searchPrompt (?n - 1) fetched"
      from render_reset [OF a b c True] assms f
      have "(idx', child) = (?n - 1, Grid g)"
        unfolding g_def by (simp only:)
      then have i: "idx' = ?n - 1" and child: "child = Grid g"
        by simp_all
      have e: "hmeEmails g = hmeEmails ?g0"
        unfolding g_def by (rule hmeListGrid_emails)
      have sel: "selectedHmeEmail g = at_index (hmeEmails ?g0) (?n - 1)"
        using grid_selected(1) [of fuse searchPrompt "?n - 1" fetched] e
        unfolding g_def by simp
      have det: "HmeDetails g = at_index (hmeEmails ?g0) (?n - 1)"
        using grid_selected(2) [of fuse searchPrompt "?n - 1" fetched] e
        unfolding g_def by simp
      have upd: "setSelectedHmeIdx g = None"
        using grid_selected(3) [of fuse searchPrompt "?n - 1" fetched] e
        unfolding g_def by simp
      have first: "setSelectedHmeIdx ?g0 = Some (?n - 1)"
        using grid_selected(3) [of fuse searchPrompt idx fetched] True by simp
      have "?P g"
        using True first
        by (auto simp add: e sel det upd i at_index_def min_def)
      with child show ?thesis by blast
    next
      case False
      then have "idx < ?n" by simp
      from render_in_range [OF a b c this] assms f
      have "(idx', child) = (idx, Grid ?g0)"
        by (simp only:)
      then have i: "idx' = idx" and child: "child = Grid ?g0"
        by simp_all
      have upd: "setSelectedHmeIdx ?g0 = None"
        using grid_selected(3) [of fuse searchPrompt idx fetched] False by simp
      have "?P ?g0"
        using False
        by (auto simp add: grid_selected(1,2) upd i at_index_def min_def)
      with child show ?thesis by blast
    qed
  qed
  from hidden rendered show ?thesis by blast
qed

theorem selection_after_render_witness:
  "HmeManager_render exact_label False None
     (Some
       [\<lparr>hme = ''a@icloud.com'', label = ''shop'', isActive = True, anonymousId = ''x1''\<rparr>,
        \<lparr>hme = ''b@icloud.com'', label = ''bank'', isActive = False,
          anonymousId = ''x2''\<rparr>])
     None 5 =
   (1,
    Grid
     \<lparr>hmeEmails =
        [\<lparr>hme = ''a@icloud.com'', label = ''shop'', isActive = True, anonymousId = ''x1''\<rparr>,
         \<lparr>hme = ''b@icloud.com'', label = ''bank'', isActive = False,
           anonymousId = ''x2''\<rparr>],
      setSelectedHmeIdx = None,
      selectedHmeEmail =
        Some \<lparr>hme = ''b@icloud.com'', label = ''bank'', isActive = False,
               anonymousId = ''x2''\<rparr>,
      noSearchResult = False,
      HmeDetails =
        Some \<lparr>hme = ''b@icloud.com'', label = ''bank'', isActive = False,
               anonymousId = ''x2''\<rparr>\<rparr>) \<and>
   setSelectedHmeIdx (hmeListGrid exact_label None 5
     [\<lparr>hme = ''a@icloud.com'', label = ''shop'', isActive = True, anonymousId = ''x1''\<rparr>,
      \<lparr>hme = ''b@icloud.com'', label = ''bank'', isActive = False, anonymousId = ''x2''\<rparr>]) =
     Some 1 \<and>
   HmeManager_render exact_label False None
     (Some
       [\<lparr>hme = ''a@icloud.com'', label = ''shop'', isActive = True,
          anonymousId = ''x1''\<rparr>])
     (Some ''none'') 0 =
   (- 1,
    Grid
     \<lparr>hmeEmails = [], setSelectedHmeIdx = None, selectedHmeEmail = None,
      noSearchResult = True, HmeDetails = None\<rparr>) \<and>
   HmeManager_render exact_label False None (Some []) None 0 = (0, emptyState)"
proof -
  let ?a = "\<lparr>hme = ''a@icloud.com'', label = ''shop'', isActive = True,
             anonymousId = ''x1''\<rparr>"
  let ?b = "\<lparr>hme = ''b@icloud.com'', label = ''bank'', isActive = False,
             anonymousId = ''x2''\<rparr>"
  let ?g = "\<lparr>hmeEmails = [?a, ?b], setSelectedHmeIdx = None, selectedHmeEmail = Some ?b,
             noSearchResult = False, HmeDetails = Some ?b\<rparr>"
  let ?e = "\<lparr>hmeEmails = [], setSelectedHmeIdx = None, selectedHmeEmail = None,
             noSearchResult = True, HmeDetails = None\<rparr>"
  have two: "HmeManager_render exact_label False None (Some [?a, ?b]) None 5 = (1, Grid ?g)"
    by (simp add: HmeManager_render.simps resolveMainChildComponent_def hmeListGrid_def
        searchHmeEmails_def at_index_def Let_def)
  have none: "HmeManager_render exact_label False None (Some [?a]) (Some ''none'') 0 =
              (- 1, Grid ?e)"
    by (simp add: HmeManager_render.simps resolveMainChildComponent_def hmeListGrid_def
        searchHmeEmails_def at_index_def Let_def exact_label_def)
  have empty: "HmeManager_render exact_label False None (Some []) None 0 = (0, emptyState)"
    by (simp add: HmeManager_render.simps resolveMainChildComponent_def)
  have shown: "\<not> False \<and> \<not> truthy None \<and> Some [?a, ?b] = Some [?a, ?b] \<and> [?a, ?b] \<noteq> []"
    by (simp add: truthy_def)
  from selection_after_render [OF two] shown
  have "\<exists>g. Grid ?g = Grid g \<and>
          (int (length (hmeEmails g)) \<le> 5 \<longrightarrow>
             setSelectedHmeIdx (hmeListGrid exact_label None 5 [?a, ?b]) =
               Some (int (length (hmeEmails g)) - 1))"
    by blast
  then have reset: "setSelectedHmeIdx (hmeListGrid exact_label None 5 [?a, ?b]) = Some 1"
    by simp
  from reset two none empty show ?thesis by simp
qed

text \<open>
  C10 as stated, "for every non-empty displayed list the selected email always exists",
  fails at the index -1 that a search without result leaves behind. With one email
  fetched, labelled "shop", the prompt "bank" finds nothing and the index 0 becomes -1.
  The list is fetched again whenever the client changes (lines 725 to 743) and now holds
  a second email, labelled "bank"; the prompt and the index are unchanged, the list on
  display has one email, no email is selected and no details panel is rendered.
\<close>

theorem selection_lost_at_minus_one:
  "HmeManager_render exact_label False None
     (Some
       [\<lparr>hme = ''a@icloud.com'', label = ''shop'', isActive = True,
          anonymousId = ''x1''\<rparr>])
     (Some ''bank'') 0 =
   (- 1,
    Grid
     \<lparr>hmeEmails = [], setSelectedHmeIdx = None, selectedHmeEmail = None,
      noSearchResult = True, HmeDetails = None\<rparr>) \<and>
   HmeManager_render exact_label False None
     (Some
       [\<lparr>hme = ''a@icloud.com'', label = ''shop'', isActive = True, anonymousId = ''x1''\<rparr>,
        \<lparr>hme = ''b@icloud.com'', label = ''bank'', isActive = True,
          anonymousId = ''x2''\<rparr>])
     (Some ''bank'') (- 1) =
   (- 1,
    Grid
     \<lparr>hmeEmails =
        [\<lparr>hme = ''b@icloud.com'', label = ''bank'', isActive = True,
           anonymousId = ''x2''\<rparr>],
      setSelectedHmeIdx = None, selectedHmeEmail = None,
      noSearchResult = False, HmeDetails = None\<rparr>)"
  by (simp add: HmeManager_render.simps resolveMainChildComponent_def hmeListGrid_def
      searchHmeEmails_def at_index_def Let_def exact_label_def)

end
